theory Spec2Isabelle
  imports Main
begin

section \<open>Log view resolution (logs_shared/common/log_views/resolved_log_view.ts)\<close>

subsection \<open>Values thrown and rejected\<close>

text \<open>
  Modelled from the spec: the class \<^verbatim>\<open>ResolveLogViewError\<close> of \<^verbatim>\<open>./errors\<close>, which is
  not among the sources. It is the domain-specific error type that wraps a service
  failure: \<open>ResolveLogViewError m cause\<close> is \<^verbatim>\<open>new ResolveLogViewError(m, cause)\<close>.

  The other values a promise of this module rejects with: \<open>Error m\<close> is
  \<^verbatim>\<open>new Error(m)\<close>, and \<open>OtherError n m\<close> is an error object of any other class, with
  its name and message, since what the injected services reject with is theirs to choose.
\<close>

datatype error =
    Error string
  | ResolveLogViewError string error
  | OtherError string string

text \<open>
  The string a template literal \<^verbatim>\<open>${error}\<close> puts in: \<^verbatim>\<open>Error.prototype.toString\<close>, the
  name alone when the message is empty, the message alone when the name is empty. The
  name of a \<open>ResolveLogViewError\<close> is taken to be that of its class; it shows only in
  the text of a message wrapping such an error again.
\<close>

definition errorToString :: "string \<Rightarrow> string \<Rightarrow> string" where
  "errorToString n m = (if n = [] then m else if m = [] then n else n @ '': '' @ m)"

fun toString :: "error \<Rightarrow> string" where
  "toString (Error m) = errorToString ''Error'' m"
| "toString (ResolveLogViewError m c) = errorToString ''ResolveLogViewError'' m"
| "toString (OtherError n m) = errorToString n m"

subsection \<open>The data model\<close>

text \<open>
  \<^verbatim>\<open>FieldSpec\<close>, \<^verbatim>\<open>MappingRuntimeField\<close> and \<^verbatim>\<open>LogViewColumnConfiguration\<close> are declared outside
  this module; the resolver passes their values through without looking inside.
\<close>

datatype FieldSpec = FieldSpec string string

datatype MappingRuntimeField = MappingRuntimeField string

type_synonym MappingRuntimeFields = "string \<rightharpoonup> MappingRuntimeField"

datatype LogViewColumnConfiguration =
    TimestampColumn string
  | MessageColumn string
  | FieldColumn string string

text \<open>
  \<^verbatim>\<open>logViewAttributes.logIndices\<close> as the object the code reads: the discriminant \<open>type\<close>,
  compared with \<^verbatim>\<open>===\<close>, and the two properties the branches read. The discriminant is
  any string, so that an object of none of the three known kinds is an input too.
\<close>

record LogIndexReference =
  type :: string
  indexName :: string
  dataViewId :: string

record LogViewAttributes =
  name :: string
  description :: string
  logIndices :: LogIndexReference
  logColumns :: "LogViewColumnConfiguration list"

text \<open>\<^verbatim>\<open>config.messageFields\<close> may be \<^verbatim>\<open>undefined\<close> or \<^verbatim>\<open>null\<close>: the code guards it with \<^verbatim>\<open>??\<close>.\<close>

record LogViewsStaticConfig =
  messageFields :: "string list option"

record LogSource =
  indexPattern :: string

record DataViewSpec =
  id' :: string
  name :: string
  title :: string
  timeFieldName :: string
  allowNoIndex :: bool

text \<open>
  A \<^verbatim>\<open>DataView\<close> object, as far as the resolver reads it: the property \<^verbatim>\<open>fields\<close> (here
  \<open>fields'\<close>, as \<open>id'\<close> stands for \<^verbatim>\<open>id\<close>: the plain names are taken), the
  optional property \<^verbatim>\<open>timeFieldName\<close>, and what its methods \<^verbatim>\<open>getIndexPattern()\<close> and
  \<^verbatim>\<open>getRuntimeMappings()\<close> return.
\<close>

record DataView =
  fields' :: "FieldSpec list"
  timeFieldName :: "string option"
  getIndexPattern :: string
  getRuntimeMappings :: MappingRuntimeFields

record ResolvedLogView =
  name :: string
  description :: string
  indices :: string
  timestampField :: string
  tiebreakerField :: string
  messageField :: "string list"
  fields' :: "FieldSpec list"
  runtimeMappings :: MappingRuntimeFields
  columns :: "LogViewColumnConfiguration list"
  dataViewReference :: DataView

text \<open>
  What the module imports from \<^verbatim>\<open>../constants\<close> and \<^verbatim>\<open>./defaults\<close>, which are not among the
  sources: the two field-name constants and the one property of
  \<^verbatim>\<open>defaultLogViewsStaticConfig\<close> that is read. Their values are parameters.
\<close>

record Imports =
  TIMESTAMP_FIELD :: string
  TIEBREAKER_FIELD :: string
  defaultLogViewsStaticConfig_messageFields :: "string list"

subsection \<open>The injected services\<close>

text \<open>
  A service call is an effect on the world outside (\<open>'w\<close>: saved objects, the network, the
  advanced settings) that settles either with a value (\<open>Inr\<close>) or with a rejection
  (\<open>Inl\<close>). Calling the same method again may give another answer.
\<close>

record 'w DataViewsContract =
  create :: "DataViewSpec \<Rightarrow> bool \<Rightarrow> bool \<Rightarrow> 'w \<Rightarrow> (error + DataView) \<times> 'w"
  get :: "string \<Rightarrow> 'w \<Rightarrow> (error + DataView) \<times> 'w"

record 'w LogSourcesService =
  getLogSources :: "'w \<Rightarrow> (error + LogSource list) \<times> 'w"

text \<open>Every call of a service method is recorded, with its arguments, in the order made.\<close>

datatype call =
    is_Create: Create DataViewSpec bool bool
  | is_Get: Get string
  | is_GetLogSources: GetLogSources

record 'w state =
  world :: 'w
  calls :: "call list"

definition invoke ::
  "call \<Rightarrow> ('w \<Rightarrow> (error + 'a) \<times> 'w) \<Rightarrow> 'w state \<Rightarrow> (error + 'a) \<times> 'w state" where
  "invoke c method s =
     (case method (world s) of
        (settled, w) \<Rightarrow> (settled, \<lparr>world = w, calls = calls s @ [c]\<rparr>))"

subsection \<open>The resolver\<close>

text \<open>
  \<^verbatim>\<open>Array.prototype.join\<close> on an array of strings. In the functions below a local
  constant that has the name of a property (\<^verbatim>\<open>indices\<close>, \<^verbatim>\<open>dataViewId\<close>,
  \<^verbatim>\<open>dataViewReference\<close>) is written with a prime.
\<close>

fun join :: "string list \<Rightarrow> string \<Rightarrow> string" where
  "join [] separator = []"
| "join [x] separator = x"
| "join (x # y # ys) separator = x @ separator @ join (y # ys) separator"

definition resolveRuntimeMappings :: "DataView \<Rightarrow> MappingRuntimeFields" where
  "resolveRuntimeMappings dataView = getRuntimeMappings dataView"

definition resolveLegacyReference ::
  "Imports \<Rightarrow> string \<Rightarrow> LogViewAttributes \<Rightarrow> 'w DataViewsContract \<Rightarrow> LogViewsStaticConfig
   \<Rightarrow> 'w state \<Rightarrow> (error + ResolvedLogView) \<times> 'w state" where
  "resolveLegacyReference K logViewId logViewAttributes dataViewsService config s =
     (if type (logIndices logViewAttributes) \<noteq> ''index_name''
      then (Inl (Error ''This function can only resolve legacy references''), s)
      else
        let indices' = indexName (logIndices logViewAttributes);
            spec = \<lparr>id' = ''log-view-'' @ logViewId,
                    DataViewSpec.name = LogViewAttributes.name logViewAttributes,
                    title = indices',
                    DataViewSpec.timeFieldName = TIMESTAMP_FIELD K,
                    allowNoIndex = True\<rparr>
        in case invoke (Create spec False False) (create dataViewsService spec False False) s of
             (Inl error, s') \<Rightarrow>
               (Inl (ResolveLogViewError
                  (''Failed to create Data View reference: '' @ toString error) error), s')
           | (Inr dataViewReference', s') \<Rightarrow>
               (Inr \<lparr>name = LogViewAttributes.name logViewAttributes,
                     description = LogViewAttributes.description logViewAttributes,
                     indices = indices',
                     timestampField = TIMESTAMP_FIELD K,
                     tiebreakerField = TIEBREAKER_FIELD K,
                     messageField =
                       (case messageFields config of
                          Some fs \<Rightarrow> fs
                        | None \<Rightarrow> defaultLogViewsStaticConfig_messageFields K),
                     fields' = DataView.fields' dataViewReference',
                     runtimeMappings = Map.empty,
                     columns = logColumns logViewAttributes,
                     dataViewReference = dataViewReference'\<rparr>, s'))"

definition resolveDataViewReference ::
  "Imports \<Rightarrow> LogViewAttributes \<Rightarrow> 'w DataViewsContract
   \<Rightarrow> 'w state \<Rightarrow> (error + ResolvedLogView) \<times> 'w state" where
  "resolveDataViewReference K logViewAttributes dataViewsService s =
     (if type (logIndices logViewAttributes) \<noteq> ''data_view''
      then (Inl (Error ''This function can only resolve Kibana data view references''), s)
      else
        let dataViewId' = dataViewId (logIndices logViewAttributes)
        in case invoke (Get dataViewId') (get dataViewsService dataViewId') s of
             (Inl error, s') \<Rightarrow>
               (Inl (ResolveLogViewError
                  (''Failed to fetch data view \"'' @ dataViewId' @ ''\": '' @ toString error)
                  error), s')
           | (Inr dataView, s') \<Rightarrow>
               (Inr \<lparr>name = LogViewAttributes.name logViewAttributes,
                     description = LogViewAttributes.description logViewAttributes,
                     indices = getIndexPattern dataView,
                     timestampField =
                       (case DataView.timeFieldName dataView of
                          Some t \<Rightarrow> t
                        | None \<Rightarrow> TIMESTAMP_FIELD K),
                     tiebreakerField = TIEBREAKER_FIELD K,
                     messageField = [''message''],
                     fields' = DataView.fields' dataView,
                     runtimeMappings = resolveRuntimeMappings dataView,
                     columns = logColumns logViewAttributes,
                     dataViewReference = dataView\<rparr>, s'))"

definition resolveKibanaAdvancedSettingReference ::
  "Imports \<Rightarrow> string \<Rightarrow> LogViewAttributes \<Rightarrow> 'w DataViewsContract \<Rightarrow> 'w LogSourcesService
   \<Rightarrow> 'w state \<Rightarrow> (error + ResolvedLogView) \<times> 'w state" where
  "resolveKibanaAdvancedSettingReference K logViewId logViewAttributes dataViewsService
       logSourcesService s =
     (if type (logIndices logViewAttributes) \<noteq> ''kibana_advanced_setting''
      then (Inl (Error
        ''This function can only resolve references to the Log Sources Kibana advanced setting''),
        s)
      else
        case invoke GetLogSources (getLogSources logSourcesService) s of
          (Inl error, s1) \<Rightarrow> (Inl error, s1)
        | (Inr logSources, s1) \<Rightarrow>
           (let indices' = join (map indexPattern logSources) '','';
                spec = \<lparr>id' = ''log-view-'' @ logViewId,
                        DataViewSpec.name = LogViewAttributes.name logViewAttributes,
                        title = indices',
                        DataViewSpec.timeFieldName = TIMESTAMP_FIELD K,
                        allowNoIndex = True\<rparr>
            in case invoke (Create spec False False)
                      (create dataViewsService spec False False) s1 of
                 (Inl error, s') \<Rightarrow>
                   (Inl (ResolveLogViewError
                      (''Failed to create Data View reference: '' @ toString error) error), s')
               | (Inr dataViewReference', s') \<Rightarrow>
                   (Inr \<lparr>name = LogViewAttributes.name logViewAttributes,
                         description = LogViewAttributes.description logViewAttributes,
                         indices = indices',
                         timestampField = TIMESTAMP_FIELD K,
                         tiebreakerField = TIEBREAKER_FIELD K,
                         messageField = [''message''],
                         fields' = DataView.fields' dataViewReference',
                         runtimeMappings = Map.empty,
                         columns = logColumns logViewAttributes,
                         dataViewReference = dataViewReference'\<rparr>, s')))"

definition resolveLogView ::
  "Imports \<Rightarrow> string \<Rightarrow> LogViewAttributes \<Rightarrow> 'w DataViewsContract \<Rightarrow> 'w LogSourcesService
   \<Rightarrow> LogViewsStaticConfig \<Rightarrow> 'w state \<Rightarrow> (error + ResolvedLogView) \<times> 'w state" where
  "resolveLogView K logViewId logViewAttributes dataViewsService logSourcesService config s =
     (if type (logIndices logViewAttributes) = ''index_name''
      then resolveLegacyReference K logViewId logViewAttributes dataViewsService config s
      else if type (logIndices logViewAttributes) = ''data_view''
      then resolveDataViewReference K logViewAttributes dataViewsService s
      else resolveKibanaAdvancedSettingReference K logViewId logViewAttributes
             dataViewsService logSourcesService s)"

section \<open>The placeholder text of the machine learning job selector\<close>

text \<open>
  \<^verbatim>\<open>i18n.translate\<close> belongs to the package \<^verbatim>\<open>@kbn/i18n\<close>, which is not among the sources: it
  is a parameter, applied to the message id and to the object holding the default message.
\<close>

record TranslateArguments =
  defaultMessage :: string

definition ML_JOB_SELECT_PLACEHOLDER_TEXT ::
  "(string \<Rightarrow> TranslateArguments \<Rightarrow> string) \<Rightarrow> string" where
  "ML_JOB_SELECT_PLACEHOLDER_TEXT translate =
     translate
       ''xpack.securitySolution.detectionEngine.createRule.stepDefineRule.mlJobSelectPlaceholderText''
       \<lparr>defaultMessage = ''Select a job''\<rparr>"

section \<open>Concrete inputs\<close>

text \<open>
  Inputs on which the theorems below are instantiated. The world of the example services
  is the number of calls they have served.
\<close>

definition exampleImports :: Imports where
  "exampleImports =
     \<lparr>TIMESTAMP_FIELD = ''@timestamp'', TIEBREAKER_FIELD = ''_doc'',
      defaultLogViewsStaticConfig_messageFields = [''message'', ''@message'']\<rparr>"

definition exampleColumns :: "LogViewColumnConfiguration list" where
  "exampleColumns = [TimestampColumn ''c1'', FieldColumn ''c2'' ''host.name'', MessageColumn ''c3'']"

definition legacyAttributes :: LogViewAttributes where
  "legacyAttributes =
     \<lparr>LogViewAttributes.name = ''Legacy'', LogViewAttributes.description = ''by index name'',
      logIndices = \<lparr>type = ''index_name'', indexName = ''logs-*,filebeat-*'', dataViewId = []\<rparr>,
      logColumns = exampleColumns\<rparr>"

definition dataViewAttributes :: LogViewAttributes where
  "dataViewAttributes =
     \<lparr>LogViewAttributes.name = ''Views'', LogViewAttributes.description = ''by data view'',
      logIndices = \<lparr>type = ''data_view'', indexName = [], dataViewId = ''dv-1''\<rparr>,
      logColumns = exampleColumns\<rparr>"

definition advancedSettingAttributes :: LogViewAttributes where
  "advancedSettingAttributes =
     \<lparr>LogViewAttributes.name = ''Settings'', LogViewAttributes.description = ''by advanced setting'',
      logIndices = \<lparr>type = ''kibana_advanced_setting'', indexName = [], dataViewId = []\<rparr>,
      logColumns = exampleColumns\<rparr>"

definition malformedAttributes :: LogViewAttributes where
  "malformedAttributes =
     \<lparr>LogViewAttributes.name = ''Odd'', LogViewAttributes.description = ''of no known kind'',
      logIndices = \<lparr>type = ''index_pattern'', indexName = ''logs-*'', dataViewId = ''dv-1''\<rparr>,
      logColumns = exampleColumns\<rparr>"

definition storedDataView :: DataView where
  "storedDataView =
     \<lparr>DataView.fields' = [FieldSpec ''host.name'' ''string''],
      timeFieldName = Some ''event.ingested'',
      getIndexPattern = ''metrics-*'',
      getRuntimeMappings = [''day'' \<mapsto> MappingRuntimeField ''keyword'']\<rparr>"

definition workingDataViews :: "nat DataViewsContract" where
  "workingDataViews =
     \<lparr>create = (\<lambda>spec skipFetchFields displayErrors w.
        (Inr \<lparr>DataView.fields' = [],
              timeFieldName = Some (DataViewSpec.timeFieldName spec),
              getIndexPattern = title spec, getRuntimeMappings = Map.empty\<rparr>, Suc w)),
      get = (\<lambda>i w. (Inr storedDataView, Suc w))\<rparr>"

definition failingDataViews :: "nat DataViewsContract" where
  "failingDataViews =
     \<lparr>create = (\<lambda>spec skipFetchFields displayErrors w.
        (Inl (OtherError ''DuplicateDataViewError'' ''exists''), Suc w)),
      get = (\<lambda>i w. (Inl (OtherError ''SavedObjectNotFound'' i), Suc w))\<rparr>"

definition workingLogSources :: "nat LogSourcesService" where
  "workingLogSources =
     \<lparr>getLogSources = (\<lambda>w.
        (Inr [\<lparr>indexPattern = ''logs-*-*''\<rparr>, \<lparr>indexPattern = ''filebeat-*''\<rparr>], Suc w))\<rparr>"

definition failingLogSources :: "nat LogSourcesService" where
  "failingLogSources = \<lparr>getLogSources = (\<lambda>w. (Inl (Error ''settings unavailable''), Suc w))\<rparr>"

definition initial :: "nat state" where
  "initial = \<lparr>world = 0, calls = []\<rparr>"

definition noConfig :: LogViewsStaticConfig where
  "noConfig = \<lparr>messageFields = None\<rparr>"

definition ownConfig :: LogViewsStaticConfig where
  "ownConfig = \<lparr>messageFields = Some [''log.original'']\<rparr>"

text \<open>The calls and the results expected on these inputs, written out.\<close>

definition createCall :: "string \<Rightarrow> string \<Rightarrow> call" where
  "createCall n t =
     Create \<lparr>id' = ''log-view-default'', name = n, title = t,
             timeFieldName = ''@timestamp'', allowNoIndex = True\<rparr> False False"

definition createdDataView :: "string \<Rightarrow> DataView" where
  "createdDataView t =
     \<lparr>DataView.fields' = [], timeFieldName = Some ''@timestamp'',
      getIndexPattern = t, getRuntimeMappings = Map.empty\<rparr>"

definition legacyResolved :: "string list \<Rightarrow> ResolvedLogView" where
  "legacyResolved fs =
     \<lparr>name = ''Legacy'', description = ''by index name'',
      indices = ''logs-*,filebeat-*'', timestampField = ''@timestamp'',
      tiebreakerField = ''_doc'', messageField = fs, fields' = [],
      runtimeMappings = Map.empty, columns = exampleColumns,
      dataViewReference = createdDataView ''logs-*,filebeat-*''\<rparr>"

definition dataViewResolved :: ResolvedLogView where
  "dataViewResolved =
     \<lparr>name = ''Views'', description = ''by data view'',
      indices = ''metrics-*'', timestampField = ''event.ingested'',
      tiebreakerField = ''_doc'', messageField = [''message''],
      fields' = [FieldSpec ''host.name'' ''string''],
      runtimeMappings = [''day'' \<mapsto> MappingRuntimeField ''keyword''],
      columns = exampleColumns, dataViewReference = storedDataView\<rparr>"

definition advancedSettingResolved :: ResolvedLogView where
  "advancedSettingResolved =
     \<lparr>name = ''Settings'', description = ''by advanced setting'',
      indices = ''logs-*-*,filebeat-*'', timestampField = ''@timestamp'',
      tiebreakerField = ''_doc'', messageField = [''message''], fields' = [],
      runtimeMappings = Map.empty, columns = exampleColumns,
      dataViewReference = createdDataView ''logs-*-*,filebeat-*''\<rparr>"

section \<open>Properties of the resolver\<close>

lemmas resolver_defs = resolveLogView_def resolveLegacyReference_def
  resolveDataViewReference_def resolveKibanaAdvancedSettingReference_def invoke_def
  resolveRuntimeMappings_def Let_def

lemmas example_defs = exampleImports_def exampleColumns_def legacyAttributes_def
  dataViewAttributes_def advancedSettingAttributes_def malformedAttributes_def
  storedDataView_def workingDataViews_def failingDataViews_def workingLogSources_def
  failingLogSources_def initial_def noConfig_def ownConfig_def createCall_def
  createdDataView_def legacyResolved_def dataViewResolved_def advancedSettingResolved_def
  numeral_2_eq_2

subsection \<open>What a successful resolution looks like, branch by branch\<close>

lemma resolveLegacyReference_resolved:
  assumes "resolveLegacyReference K i a dvs cfg s = (Inr r, s')"
  obtains dv where "type (logIndices a) = ''index_name''"
    and "r = \<lparr>name = LogViewAttributes.name a,
              description = LogViewAttributes.description a,
              indices = indexName (logIndices a),
              timestampField = TIMESTAMP_FIELD K,
              tiebreakerField = TIEBREAKER_FIELD K,
              messageField = (case messageFields cfg of Some fs \<Rightarrow> fs
                | None \<Rightarrow> defaultLogViewsStaticConfig_messageFields K),
              fields' = DataView.fields' dv,
              runtimeMappings = Map.empty,
              columns = logColumns a,
              dataViewReference = dv\<rparr>"
  using assms unfolding resolveLegacyReference_def Let_def
  by (auto split: if_splits prod.splits sum.splits)

lemma resolveDataViewReference_resolved:
  assumes "resolveDataViewReference K a dvs s = (Inr r, s')"
  obtains dv where "type (logIndices a) = ''data_view''"
    and "fst (get dvs (dataViewId (logIndices a)) (world s)) = Inr dv"
    and "r = \<lparr>name = LogViewAttributes.name a,
              description = LogViewAttributes.description a,
              indices = getIndexPattern dv,
              timestampField = (case DataView.timeFieldName dv of Some t \<Rightarrow> t
                | None \<Rightarrow> TIMESTAMP_FIELD K),
              tiebreakerField = TIEBREAKER_FIELD K,
              messageField = [''message''],
              fields' = DataView.fields' dv,
              runtimeMappings = getRuntimeMappings dv,
              columns = logColumns a,
              dataViewReference = dv\<rparr>"
  using assms
  unfolding resolveDataViewReference_def Let_def invoke_def resolveRuntimeMappings_def
  by (auto split: if_splits prod.splits sum.splits)

lemma resolveKibanaAdvancedSettingReference_resolved:
  assumes "resolveKibanaAdvancedSettingReference K i a dvs lss s = (Inr r, s')"
  obtains logSources dv where "type (logIndices a) = ''kibana_advanced_setting''"
    and "fst (getLogSources lss (world s)) = Inr logSources"
    and "r = \<lparr>name = LogViewAttributes.name a,
              description = LogViewAttributes.description a,
              indices = join (map indexPattern logSources) '','',
              timestampField = TIMESTAMP_FIELD K,
              tiebreakerField = TIEBREAKER_FIELD K,
              messageField = [''message''],
              fields' = DataView.fields' dv,
              runtimeMappings = Map.empty,
              columns = logColumns a,
              dataViewReference = dv\<rparr>"
  using assms unfolding resolveKibanaAdvancedSettingReference_def Let_def invoke_def
  by (auto split: if_splits prod.splits sum.splits)

text \<open>The three ways in which \<open>resolveLogView\<close> can have resolved.\<close>

lemma resolveLogView_resolved:
  assumes "resolveLogView K i a dvs lss cfg s = (Inr r, s')"
  obtains (legacy) "type (logIndices a) = ''index_name''"
      "resolveLegacyReference K i a dvs cfg s = (Inr r, s')"
    | (data_view) "type (logIndices a) = ''data_view''"
      "resolveDataViewReference K a dvs s = (Inr r, s')"
    | (advanced_setting) "type (logIndices a) = ''kibana_advanced_setting''"
      "resolveKibanaAdvancedSettingReference K i a dvs lss s = (Inr r, s')"
proof (cases "type (logIndices a) = ''index_name''")
  case True
  with assms legacy show ?thesis by (simp add: resolveLogView_def)
next
  case not_legacy: False
  show ?thesis
  proof (cases "type (logIndices a) = ''data_view''")
    case True
    with assms data_view show ?thesis by (simp add: resolveLogView_def)
  next
    case False
    with not_legacy assms
    have run: "resolveKibanaAdvancedSettingReference K i a dvs lss s = (Inr r, s')"
      by (simp add: resolveLogView_def)
    then have "type (logIndices a) = ''kibana_advanced_setting''"
      by (rule resolveKibanaAdvancedSettingReference_resolved)
    with run advanced_setting show ?thesis by blast
  qed
qed

subsection \<open>The example runs\<close>

lemma legacy_run_noConfig:
  "resolveLogView exampleImports ''default'' legacyAttributes workingDataViews
     workingLogSources noConfig initial =
   (Inr (legacyResolved [''message'', ''@message'']),
    \<lparr>world = 1, calls = [createCall ''Legacy'' ''logs-*,filebeat-*'']\<rparr>)"
  by (simp add: resolver_defs example_defs)

lemma legacy_run_ownConfig:
  "resolveLogView exampleImports ''default'' legacyAttributes workingDataViews
     workingLogSources ownConfig initial =
   (Inr (legacyResolved [''log.original'']),
    \<lparr>world = 1, calls = [createCall ''Legacy'' ''logs-*,filebeat-*'']\<rparr>)"
  by (simp add: resolver_defs example_defs)

lemma dataView_run:
  "resolveLogView exampleImports ''default'' dataViewAttributes workingDataViews
     workingLogSources cfg initial =
   (Inr dataViewResolved, \<lparr>world = 1, calls = [Get ''dv-1'']\<rparr>)"
  by (simp add: resolver_defs example_defs)

lemma advancedSetting_run:
  "resolveLogView exampleImports ''default'' advancedSettingAttributes workingDataViews
     workingLogSources cfg initial =
   (Inr advancedSettingResolved,
    \<lparr>world = 2, calls = [GetLogSources, createCall ''Settings'' ''logs-*-*,filebeat-*'']\<rparr>)"
  by (simp add: resolver_defs example_defs)

subsection \<open>Dispatch\<close>

text \<open>
  C1. \<open>resolveLogView\<close> dispatches on \<open>logViewAttributes.logIndices.type\<close>: on
  \<open>index_name\<close> it is the legacy-reference branch, on \<open>data_view\<close> the data-view-reference
  branch, and on anything else the Kibana-advanced-setting branch. The three conditions
  exclude one another and cover every input, so one branch runs, and only one.
\<close>

theorem resolveLogView_dispatch:
  "(type (logIndices a) = ''index_name'' \<longrightarrow>
      resolveLogView K i a dvs lss cfg s = resolveLegacyReference K i a dvs cfg s) \<and>
   (type (logIndices a) = ''data_view'' \<longrightarrow>
      resolveLogView K i a dvs lss cfg s = resolveDataViewReference K a dvs s) \<and>
   (type (logIndices a) \<noteq> ''index_name'' \<and> type (logIndices a) \<noteq> ''data_view'' \<longrightarrow>
      resolveLogView K i a dvs lss cfg s =
        resolveKibanaAdvancedSettingReference K i a dvs lss s)"
proof (intro conjI impI)
  assume "type (logIndices a) = ''index_name''"
  then show "resolveLogView K i a dvs lss cfg s = resolveLegacyReference K i a dvs cfg s"
    by (simp add: resolveLogView_def)
next
  assume "type (logIndices a) = ''data_view''"
  then show "resolveLogView K i a dvs lss cfg s = resolveDataViewReference K a dvs s"
    by (simp add: resolveLogView_def)
next
  assume "type (logIndices a) \<noteq> ''index_name'' \<and> type (logIndices a) \<noteq> ''data_view''"
  then show "resolveLogView K i a dvs lss cfg s =
      resolveKibanaAdvancedSettingReference K i a dvs lss s"
    by (simp add: resolveLogView_def)
qed

theorem resolveLogView_dispatch_witness:
  "type (logIndices legacyAttributes) = ''index_name'' \<and>
   resolveLogView exampleImports ''default'' legacyAttributes workingDataViews
       workingLogSources noConfig initial =
     resolveLegacyReference exampleImports ''default'' legacyAttributes workingDataViews
       noConfig initial \<and>
   type (logIndices dataViewAttributes) = ''data_view'' \<and>
   resolveLogView exampleImports ''default'' dataViewAttributes workingDataViews
       workingLogSources noConfig initial =
     resolveDataViewReference exampleImports dataViewAttributes workingDataViews initial \<and>
   type (logIndices advancedSettingAttributes) \<noteq> ''index_name'' \<and>
   type (logIndices advancedSettingAttributes) \<noteq> ''data_view'' \<and>
   resolveLogView exampleImports ''default'' advancedSettingAttributes workingDataViews
       workingLogSources noConfig initial =
     resolveKibanaAdvancedSettingReference exampleImports ''default''
       advancedSettingAttributes workingDataViews workingLogSources initial"
  using
    resolveLogView_dispatch [where a = legacyAttributes and K = exampleImports
      and i = "''default''" and dvs = workingDataViews and lss = workingLogSources
      and cfg = noConfig and s = initial]
    resolveLogView_dispatch [where a = dataViewAttributes and K = exampleImports
      and i = "''default''" and dvs = workingDataViews and lss = workingLogSources
      and cfg = noConfig and s = initial]
    resolveLogView_dispatch [where a = advancedSettingAttributes and K = exampleImports
      and i = "''default''" and dvs = workingDataViews and lss = workingLogSources
      and cfg = noConfig and s = initial]
  by (simp add: legacyAttributes_def dataViewAttributes_def advancedSettingAttributes_def)

subsection \<open>Failures of the services\<close>

text \<open>
  A rejection of \<open>dataViewsService.create\<close> or of \<open>dataViewsService.get\<close> is caught and
  wrapped; a rejection of \<open>logSourcesService.getLogSources\<close> is awaited with no handler and
  leaves \<open>resolveLogView\<close> as it is.
\<close>

lemma legacy_create_failure_wrapped:
  assumes "type (logIndices a) = ''index_name''"
    and "create dvs
           \<lparr>id' = ''log-view-'' @ i, name = LogViewAttributes.name a,
            title = indexName (logIndices a), timeFieldName = TIMESTAMP_FIELD K,
            allowNoIndex = True\<rparr> False False (world s) = (Inl e, w)"
  shows "fst (resolveLogView K i a dvs lss cfg s) =
    Inl (ResolveLogViewError (''Failed to create Data View reference: '' @ toString e) e)"
  using assms by (simp add: resolver_defs)

lemma dataView_get_failure_wrapped:
  assumes "type (logIndices a) = ''data_view''"
    and "get dvs (dataViewId (logIndices a)) (world s) = (Inl e, w)"
  shows "fst (resolveLogView K i a dvs lss cfg s) =
    Inl (ResolveLogViewError
      (''Failed to fetch data view \"'' @ dataViewId (logIndices a) @ ''\": '' @ toString e) e)"
  using assms by (simp add: resolver_defs)

lemma advancedSetting_create_failure_wrapped:
  assumes "type (logIndices a) = ''kibana_advanced_setting''"
    and "getLogSources lss (world s) = (Inr logSources, w1)"
    and "create dvs
           \<lparr>id' = ''log-view-'' @ i, name = LogViewAttributes.name a,
            title = join (map indexPattern logSources) '','',
            timeFieldName = TIMESTAMP_FIELD K,
            allowNoIndex = True\<rparr> False False w1 = (Inl e, w)"
  shows "fst (resolveLogView K i a dvs lss cfg s) =
    Inl (ResolveLogViewError (''Failed to create Data View reference: '' @ toString e) e)"
  using assms by (simp add: resolver_defs)

lemma advancedSetting_getLogSources_failure_passed_on:
  assumes "type (logIndices a) = ''kibana_advanced_setting''"
    and "getLogSources lss (world s) = (Inl e, w)"
  shows "resolveLogView K i a dvs lss cfg s =
    (Inl e, \<lparr>world = w, calls = calls s @ [GetLogSources]\<rparr>)"
  using assms by (simp add: resolver_defs)

text \<open>
  C2. Every failure of a delegated service call reaches the caller wrapped in a
  \<open>ResolveLogViewError\<close> that carries the original error. The code does not do this for
  \<open>logSourcesService.getLogSources\<close>: with a log sources service that rejects with
  \<open>Error ''settings unavailable''\<close>, \<open>resolveLogView\<close> rejects with that very error,
  unwrapped, after the one call.
\<close>

theorem resolveLogView_getLogSources_failure_unwrapped:
  "resolveLogView exampleImports ''default'' advancedSettingAttributes workingDataViews
     failingLogSources noConfig initial =
   (Inl (Error ''settings unavailable''), \<lparr>world = 1, calls = [GetLogSources]\<rparr>)"
  by (simp add: advancedSetting_getLogSources_failure_passed_on
      advancedSettingAttributes_def failingLogSources_def initial_def)

subsection \<open>The data-view branch\<close>

text \<open>
  C3. When \<open>logIndices.type\<close> is \<open>data_view\<close> and \<open>dataViewsService.get\<close>, called with
  the configured \<open>dataViewId\<close>, yields a data view, the resolution succeeds after that one
  call, and the result has \<open>indices\<close> equal to the data view's \<open>getIndexPattern()\<close>,
  \<open>timestampField\<close> equal to its \<open>timeFieldName\<close> when that is defined and to
  \<open>TIMESTAMP_FIELD\<close> otherwise, \<open>runtimeMappings\<close> equal to its \<open>getRuntimeMappings()\<close>,
  \<open>messageField\<close> equal to \<open>['message']\<close>, and the fetched data view itself as
  \<open>dataViewReference\<close>.
\<close>

theorem resolveLogView_data_view:
  assumes "type (logIndices a) = ''data_view''"
    and "get dvs (dataViewId (logIndices a)) (world s) = (Inr dv, w)"
  shows "\<exists>r. resolveLogView K i a dvs lss cfg s =
           (Inr r, \<lparr>world = w, calls = calls s @ [Get (dataViewId (logIndices a))]\<rparr>) \<and>
         indices r = getIndexPattern dv \<and>
         timestampField r =
           (case DataView.timeFieldName dv of Some t \<Rightarrow> t | None \<Rightarrow> TIMESTAMP_FIELD K) \<and>
         runtimeMappings r = getRuntimeMappings dv \<and>
         messageField r = [''message''] \<and>
         dataViewReference r = dv"
proof -
  from assms(1) have "resolveLogView K i a dvs lss cfg s = resolveDataViewReference K a dvs s"
    by (simp add: resolveLogView_def)
  moreover from assms(2)
  have "invoke (Get (dataViewId (logIndices a))) (get dvs (dataViewId (logIndices a))) s =
      (Inr dv, \<lparr>world = w, calls = calls s @ [Get (dataViewId (logIndices a))]\<rparr>)"
    by (simp add: invoke_def)
  ultimately show ?thesis
    using assms(1) by (simp add: resolveDataViewReference_def resolveRuntimeMappings_def)
qed

theorem resolveLogView_data_view_witness:
  "type (logIndices dataViewAttributes) = ''data_view'' \<and>
   get workingDataViews (dataViewId (logIndices dataViewAttributes)) (world initial) =
     (Inr storedDataView, 1) \<and>
   (\<exists>r. resolveLogView exampleImports ''default'' dataViewAttributes workingDataViews
           workingLogSources noConfig initial =
           (Inr r, \<lparr>world = 1, calls = [Get ''dv-1'']\<rparr>) \<and>
         indices r = ''metrics-*'' \<and>
         timestampField r = ''event.ingested'' \<and>
         runtimeMappings r = [''day'' \<mapsto> MappingRuntimeField ''keyword''] \<and>
         messageField r = [''message''] \<and>
         dataViewReference r = storedDataView)"
proof -
  have kind: "type (logIndices dataViewAttributes) = ''data_view''"
    by (simp add: dataViewAttributes_def)
  have fetched:
    "get workingDataViews (dataViewId (logIndices dataViewAttributes)) (world initial) =
       (Inr storedDataView, 1)"
    by (simp add: workingDataViews_def initial_def)
  from resolveLogView_data_view [OF kind fetched, of exampleImports "''default''"
      workingLogSources noConfig]
  show ?thesis using kind fetched
    by (simp add: dataViewAttributes_def initial_def storedDataView_def)
qed

text \<open>A data view without a time field gets the default timestamp field.\<close>

lemma stored_data_view_without_time_field:
  "timestampField (projr (fst (resolveLogView exampleImports ''default'' dataViewAttributes
      \<lparr>create = create workingDataViews,
       get = (\<lambda>i w. (Inr (storedDataView\<lparr>DataView.timeFieldName := None\<rparr>), Suc w))\<rparr>
      workingLogSources noConfig initial))) = ''@timestamp''"
  by (simp add: resolver_defs example_defs)

subsection \<open>A reference of no known kind\<close>

text \<open>
  C4. When \<open>logIndices.type\<close> is none of \<open>index_name\<close>, \<open>data_view\<close> and
  \<open>kibana_advanced_setting\<close>, \<open>resolveLogView\<close> fails with a plain \<open>Error\<close>, not a
  \<open>ResolveLogViewError\<close>, and it has called no service: the world and the record of calls
  are as they were.
\<close>

theorem resolveLogView_unknown_kind:
  assumes "type (logIndices a) \<notin> {''index_name'', ''data_view'', ''kibana_advanced_setting''}"
  shows "resolveLogView K i a dvs lss cfg s =
    (Inl (Error
      ''This function can only resolve references to the Log Sources Kibana advanced setting''),
     s)"
proof -
  from assms have "type (logIndices a) \<noteq> ''index_name''" "type (logIndices a) \<noteq> ''data_view''"
    and guard: "type (logIndices a) \<noteq> ''kibana_advanced_setting''"
    by simp_all
  then have "resolveLogView K i a dvs lss cfg s =
      resolveKibanaAdvancedSettingReference K i a dvs lss s"
    by (simp add: resolveLogView_def)
  with guard show ?thesis
    by (simp add: resolveKibanaAdvancedSettingReference_def)
qed

theorem resolveLogView_unknown_kind_witness:
  "type (logIndices malformedAttributes) \<notin>
     {''index_name'', ''data_view'', ''kibana_advanced_setting''} \<and>
   resolveLogView exampleImports ''default'' malformedAttributes workingDataViews
     workingLogSources noConfig initial =
   (Inl (Error
      ''This function can only resolve references to the Log Sources Kibana advanced setting''),
    \<lparr>world = 0, calls = []\<rparr>)"
proof -
  have kind: "type (logIndices malformedAttributes) \<notin>
      {''index_name'', ''data_view'', ''kibana_advanced_setting''}"
    by (simp add: malformedAttributes_def)
  from resolveLogView_unknown_kind [OF kind, of exampleImports "''default''"
      workingDataViews workingLogSources noConfig initial]
  show ?thesis using kind by (simp add: initial_def)
qed

subsection \<open>The advanced-setting branch\<close>

text \<open>
  What \<open>join\<close> computes, in terms of the list library: nothing for no element, and
  otherwise the first element followed by every later one, in order, each behind a
  separator.
\<close>

lemma join_concat:
  "join xs separator =
     (case xs of [] \<Rightarrow> [] | x # ys \<Rightarrow> x @ concat (map (\<lambda>y. separator @ y) ys))"
  by (induction xs separator rule: join.induct) simp_all

lemma join_three_patterns: "join [''logs-*'', ''filebeat-*'', ''traces-*''] '','' =
    ''logs-*,filebeat-*,traces-*''"
  by simp

lemma join_length:
  "length (join xs separator) = sum_list (map length xs) + (length xs - 1) * length separator"
  by (induction xs separator rule: join.induct) simp_all

text \<open>
  C5. When \<open>logIndices.type\<close> is \<open>kibana_advanced_setting\<close> and
  \<open>logSourcesService.getLogSources()\<close> yields the log sources, the index patterns of the
  sources, in their order and with a comma between each two neighbours (the first
  pattern, then each later one behind a comma), are the title of the data view that
  \<open>dataViewsService.create\<close> is then asked for, and are the \<open>indices\<close> of the result
  whenever there is one (there is none only when that \<open>create\<close> call fails).
\<close>

theorem resolveLogView_advanced_setting_indices:
  assumes "type (logIndices a) = ''kibana_advanced_setting''"
    and "getLogSources lss (world s) = (Inr logSources, w1)"
  shows "let joined =
           (case map indexPattern logSources of
              [] \<Rightarrow> []
            | p # ps \<Rightarrow> p @ concat (map (\<lambda>q. '','' @ q) ps))
         in
           calls (snd (resolveLogView K i a dvs lss cfg s)) =
             calls s @
             [GetLogSources,
              Create \<lparr>id' = ''log-view-'' @ i, name = LogViewAttributes.name a,
                      title = joined,
                      timeFieldName = TIMESTAMP_FIELD K, allowNoIndex = True\<rparr> False False] \<and>
           (case fst (resolveLogView K i a dvs lss cfg s) of
              Inr r \<Rightarrow> indices r = joined
            | Inl e \<Rightarrow>
                \<exists>d. e = ResolveLogViewError
                           (''Failed to create Data View reference: '' @ toString d) d \<and>
                     fst (create dvs
                       \<lparr>id' = ''log-view-'' @ i, name = LogViewAttributes.name a,
                        title = joined,
                        timeFieldName = TIMESTAMP_FIELD K, allowNoIndex = True\<rparr>
                       False False w1) = Inl d)"
proof -
  from assms(1)
  have "resolveLogView K i a dvs lss cfg s =
      resolveKibanaAdvancedSettingReference K i a dvs lss s"
    by (simp add: resolveLogView_def)
  moreover from assms(2)
  have "invoke GetLogSources (getLogSources lss) s =
      (Inr logSources, \<lparr>world = w1, calls = calls s @ [GetLogSources]\<rparr>)"
    by (simp add: invoke_def)
  moreover
  have "join (map indexPattern logSources) '','' =
      (case map indexPattern logSources of
         [] \<Rightarrow> []
       | p # ps \<Rightarrow> p @ concat (map (\<lambda>q. '','' @ q) ps))"
    by (rule join_concat)
  ultimately show ?thesis
    using assms(1)
    by (simp add: resolveKibanaAdvancedSettingReference_def Let_def invoke_def
        split: prod.split sum.split)
qed

theorem resolveLogView_advanced_setting_indices_witness:
  "type (logIndices advancedSettingAttributes) = ''kibana_advanced_setting'' \<and>
   getLogSources workingLogSources (world initial) =
     (Inr [\<lparr>indexPattern = ''logs-*-*''\<rparr>, \<lparr>indexPattern = ''filebeat-*''\<rparr>], 1) \<and>
   calls (snd (resolveLogView exampleImports ''default'' advancedSettingAttributes
     workingDataViews workingLogSources noConfig initial)) =
     [GetLogSources, createCall ''Settings'' ''logs-*-*,filebeat-*''] \<and>
   (\<exists>r. fst (resolveLogView exampleImports ''default'' advancedSettingAttributes
       workingDataViews workingLogSources noConfig initial) = Inr r \<and>
     indices r = ''logs-*-*,filebeat-*'')"
proof -
  have kind: "type (logIndices advancedSettingAttributes) = ''kibana_advanced_setting''"
    by (simp add: advancedSettingAttributes_def)
  have listed: "getLogSources workingLogSources (world initial) =
      (Inr [\<lparr>indexPattern = ''logs-*-*''\<rparr>, \<lparr>indexPattern = ''filebeat-*''\<rparr>], 1)"
    by (simp add: workingLogSources_def initial_def)
  have resolved: "fst (resolveLogView exampleImports ''default'' advancedSettingAttributes
      workingDataViews workingLogSources noConfig initial) = Inr advancedSettingResolved"
    by (simp add: advancedSetting_run)
  from resolveLogView_advanced_setting_indices [OF kind listed, of exampleImports
      "''default''" workingDataViews noConfig]
  show ?thesis using kind listed resolved
    by (simp add: advancedSettingAttributes_def initial_def createCall_def
        exampleImports_def Let_def)
qed

subsection \<open>Fields of the resolved log view\<close>

text \<open>
  C6. In a resolution of an \<open>index_name\<close> reference the \<open>messageField\<close> of the result is
  \<open>config.messageFields\<close> when that is defined and
  \<open>defaultLogViewsStaticConfig.messageFields\<close> otherwise; in a resolution of either other
  kind it is \<open>['message']\<close>, whatever the configuration says.
\<close>

theorem resolveLogView_messageField:
  assumes "resolveLogView K i a dvs lss cfg s = (Inr r, s')"
  shows "(type (logIndices a) = ''index_name'' \<longrightarrow>
            messageField r =
              (case messageFields cfg of
                 Some fs \<Rightarrow> fs
               | None \<Rightarrow> defaultLogViewsStaticConfig_messageFields K)) \<and>
         (type (logIndices a) \<noteq> ''index_name'' \<longrightarrow> messageField r = [''message''])"
  using assms
proof (cases rule: resolveLogView_resolved)
  case legacy
  from legacy(2) show ?thesis
    by (rule resolveLegacyReference_resolved) (simp add: legacy(1))
next
  case data_view
  from data_view(2) show ?thesis
    by (rule resolveDataViewReference_resolved) (simp add: data_view(1))
next
  case advanced_setting
  from advanced_setting(2) show ?thesis
    by (rule resolveKibanaAdvancedSettingReference_resolved) (simp add: advanced_setting(1))
qed

theorem resolveLogView_messageField_witness:
  "type (logIndices legacyAttributes) = ''index_name'' \<and>
   fst (resolveLogView exampleImports ''default'' legacyAttributes workingDataViews
     workingLogSources ownConfig initial) = Inr (legacyResolved [''log.original'']) \<and>
   messageField (legacyResolved [''log.original'']) = [''log.original''] \<and>
   fst (resolveLogView exampleImports ''default'' legacyAttributes workingDataViews
     workingLogSources noConfig initial) = Inr (legacyResolved [''message'', ''@message'']) \<and>
   messageField (legacyResolved [''message'', ''@message'']) = [''message'', ''@message''] \<and>
   type (logIndices dataViewAttributes) \<noteq> ''index_name'' \<and>
   fst (resolveLogView exampleImports ''default'' dataViewAttributes workingDataViews
     workingLogSources ownConfig initial) = Inr dataViewResolved \<and>
   messageField dataViewResolved = [''message''] \<and>
   type (logIndices advancedSettingAttributes) \<noteq> ''index_name'' \<and>
   fst (resolveLogView exampleImports ''default'' advancedSettingAttributes workingDataViews
     workingLogSources ownConfig initial) = Inr advancedSettingResolved \<and>
   messageField advancedSettingResolved = [''message'']"
  using
    resolveLogView_messageField [OF legacy_run_ownConfig]
    resolveLogView_messageField [OF legacy_run_noConfig]
    resolveLogView_messageField [OF dataView_run [of ownConfig]]
    resolveLogView_messageField [OF advancedSetting_run [of ownConfig]]
    legacy_run_ownConfig legacy_run_noConfig dataView_run [of ownConfig]
    advancedSetting_run [of ownConfig]
  by (simp add: legacyAttributes_def dataViewAttributes_def advancedSettingAttributes_def
      ownConfig_def noConfig_def exampleImports_def)

text \<open>
  C8. Whatever the kind of the reference, a successful resolution has the
  \<open>TIEBREAKER_FIELD\<close> constant as \<open>tiebreakerField\<close>, and the \<open>name\<close>, \<open>description\<close> and
  \<open>logColumns\<close> of the log view attributes, unchanged, as \<open>name\<close>, \<open>description\<close> and
  \<open>columns\<close>.
\<close>

theorem resolveLogView_passes_attributes:
  assumes "resolveLogView K i a dvs lss cfg s = (Inr r, s')"
  shows "tiebreakerField r = TIEBREAKER_FIELD K \<and>
         name r = LogViewAttributes.name a \<and>
         description r = LogViewAttributes.description a \<and>
         columns r = logColumns a"
  using assms
proof (cases rule: resolveLogView_resolved)
  case legacy
  from legacy(2) show ?thesis by (rule resolveLegacyReference_resolved) simp
next
  case data_view
  from data_view(2) show ?thesis by (rule resolveDataViewReference_resolved) simp
next
  case advanced_setting
  from advanced_setting(2) show ?thesis
    by (rule resolveKibanaAdvancedSettingReference_resolved) simp
qed

theorem resolveLogView_passes_attributes_witness:
  "resolveLogView exampleImports ''default'' dataViewAttributes workingDataViews
     workingLogSources noConfig initial =
     (Inr dataViewResolved, \<lparr>world = 1, calls = [Get ''dv-1'']\<rparr>) \<and>
   tiebreakerField dataViewResolved = ''_doc'' \<and>
   name dataViewResolved = ''Views'' \<and>
   description dataViewResolved = ''by data view'' \<and>
   columns dataViewResolved =
     [TimestampColumn ''c1'', FieldColumn ''c2'' ''host.name'', MessageColumn ''c3'']"
  using dataView_run [of noConfig]
    resolveLogView_passes_attributes [OF dataView_run [of noConfig]]
  by (simp add: exampleImports_def dataViewAttributes_def exampleColumns_def)

text \<open>
  C9. A successful resolution of a reference that is not a \<open>data_view\<close> reference (so
  an \<open>index_name\<close> or a \<open>kibana_advanced_setting\<close> one) has the empty object as
  \<open>runtimeMappings\<close> and the \<open>TIMESTAMP_FIELD\<close> constant as \<open>timestampField\<close>: runtime
  mappings that are not empty, or another timestamp field, come from the \<open>data_view\<close>
  branch only.
\<close>

theorem resolveLogView_defaults_outside_data_view:
  assumes "resolveLogView K i a dvs lss cfg s = (Inr r, s')"
    and "type (logIndices a) \<noteq> ''data_view''"
  shows "runtimeMappings r = Map.empty \<and> timestampField r = TIMESTAMP_FIELD K"
  using assms(1)
proof (cases rule: resolveLogView_resolved)
  case legacy
  from legacy(2) show ?thesis by (rule resolveLegacyReference_resolved) simp
next
  case data_view
  with assms(2) show ?thesis by simp
next
  case advanced_setting
  from advanced_setting(2) show ?thesis
    by (rule resolveKibanaAdvancedSettingReference_resolved) simp
qed

theorem resolveLogView_defaults_outside_data_view_witness:
  "type (logIndices legacyAttributes) \<noteq> ''data_view'' \<and>
   fst (resolveLogView exampleImports ''default'' legacyAttributes workingDataViews
     workingLogSources noConfig initial) = Inr (legacyResolved [''message'', ''@message'']) \<and>
   runtimeMappings (legacyResolved [''message'', ''@message'']) = Map.empty \<and>
   timestampField (legacyResolved [''message'', ''@message'']) = ''@timestamp'' \<and>
   type (logIndices advancedSettingAttributes) \<noteq> ''data_view'' \<and>
   fst (resolveLogView exampleImports ''default'' advancedSettingAttributes workingDataViews
     workingLogSources noConfig initial) = Inr advancedSettingResolved \<and>
   runtimeMappings advancedSettingResolved = Map.empty \<and>
   timestampField advancedSettingResolved = ''@timestamp''"
proof -
  have legacy: "type (logIndices legacyAttributes) \<noteq> ''data_view''"
    by (simp add: legacyAttributes_def)
  have setting: "type (logIndices advancedSettingAttributes) \<noteq> ''data_view''"
    by (simp add: advancedSettingAttributes_def)
  from resolveLogView_defaults_outside_data_view [OF legacy_run_noConfig legacy]
    resolveLogView_defaults_outside_data_view [OF advancedSetting_run [of noConfig] setting]
  show ?thesis
    using legacy setting legacy_run_noConfig advancedSetting_run [of noConfig]
    by (simp add: exampleImports_def)
qed

text \<open>The \<open>data_view\<close> branch does produce its own runtime mappings and timestamp field.\<close>

lemma stored_data_view_own_mappings:
  "runtimeMappings dataViewResolved \<noteq> Map.empty \<and>
   timestampField dataViewResolved \<noteq> TIMESTAMP_FIELD exampleImports"
proof -
  have "runtimeMappings dataViewResolved ''day'' = Some (MappingRuntimeField ''keyword'')"
    by (simp add: dataViewResolved_def)
  then have "runtimeMappings dataViewResolved \<noteq> Map.empty" by auto
  then show ?thesis by (simp add: dataViewResolved_def exampleImports_def)
qed

subsection \<open>No retries\<close>

text \<open>
  C7. One invocation of \<open>resolveLogView\<close> adds to the record of calls at most one call of
  \<open>dataViewsService.create\<close>, at most one of \<open>dataViewsService.get\<close> and at most one of
  \<open>logSourcesService.getLogSources\<close>, whether these succeed or fail: no call is made a
  second time.
\<close>

theorem resolveLogView_calls_at_most_once:
  "\<exists>cs. calls (snd (resolveLogView K i a dvs lss cfg s)) = calls s @ cs \<and>
     length (filter is_Create cs) \<le> 1 \<and>
     length (filter is_Get cs) \<le> 1 \<and>
     length (filter is_GetLogSources cs) \<le> 1"
proof -
  have legacy: "\<exists>cs. calls (snd (resolveLegacyReference K i a dvs cfg s)) = calls s @ cs \<and>
      length cs \<le> 1 \<and> list_all is_Create cs"
    by (simp add: resolveLegacyReference_def Let_def invoke_def split: prod.split sum.split)
  have data_view: "\<exists>cs. calls (snd (resolveDataViewReference K a dvs s)) = calls s @ cs \<and>
      length cs \<le> 1 \<and> list_all is_Get cs"
    by (simp add: resolveDataViewReference_def Let_def invoke_def split: prod.split sum.split)
  have setting:
    "\<exists>cs. calls (snd (resolveKibanaAdvancedSettingReference K i a dvs lss s)) = calls s @ cs \<and>
      (cs = [] \<or> cs = [GetLogSources] \<or> (\<exists>c. is_Create c \<and> cs = [GetLogSources, c]))"
    by (simp add: resolveKibanaAdvancedSettingReference_def Let_def invoke_def
        split: prod.split sum.split)
  have one: "length (filter P cs) \<le> 1" if "length cs \<le> 1" for P and cs :: "call list"
    using that le_trans [OF length_filter_le] by blast
  show ?thesis
  proof (cases "type (logIndices a) = ''index_name''")
    case True
    with legacy one show ?thesis by (auto simp add: resolveLogView_def)
  next
    case not_legacy: False
    show ?thesis
    proof (cases "type (logIndices a) = ''data_view''")
      case True
      with not_legacy data_view one show ?thesis by (auto simp add: resolveLogView_def)
    next
      case False
      with not_legacy setting show ?thesis by (auto simp add: resolveLogView_def)
    qed
  qed
qed

section \<open>Properties of the placeholder text\<close>

text \<open>
  C10. \<open>ML_JOB_SELECT_PLACEHOLDER_TEXT\<close> is one fixed string: it is computed from the
  message id and the default message \<open>Select a job\<close> alone, with no argument of the
  log-view resolver or of any other part of the program, and it is \<open>Select a job\<close> whenever
  the translation function falls back to the default message.
\<close>

theorem ML_JOB_SELECT_PLACEHOLDER_TEXT_default:
  assumes "\<And>messageId arguments. translate messageId arguments = defaultMessage arguments"
  shows "ML_JOB_SELECT_PLACEHOLDER_TEXT translate = ''Select a job''"
  using assms by (simp add: ML_JOB_SELECT_PLACEHOLDER_TEXT_def)

theorem ML_JOB_SELECT_PLACEHOLDER_TEXT_default_witness:
  "ML_JOB_SELECT_PLACEHOLDER_TEXT (\<lambda>messageId arguments. defaultMessage arguments) =
     ''Select a job''"
  using ML_JOB_SELECT_PLACEHOLDER_TEXT_default
    [of "\<lambda>messageId arguments. defaultMessage arguments"]
  by simp

end
